theory Spec2Isabelle
  imports Main
begin

section \<open>The host: native calls and their results\<close>

text \<open>
  \<^verbatim>\<open>common/XenomaiLock.cpp\<close> is a thin layer over calls into libcobalt, libc and the
  Xenomai runtime. The layer itself only looks at the \<^verbatim>\<open>int\<close> each call returns, so
  the embedding keeps the calls abstract: a \<open>call\<close> names the native function together
  with the arguments the source passes, and an \<open>event\<close> records one call with the value it
  returned. Native handles (\<^verbatim>\<open>&mutex\<close>, \<^verbatim>\<open>&cond\<close>) are addresses.

  C \<^verbatim>\<open>int\<close> and \<^verbatim>\<open>pid_t\<close> values are \<open>int\<close>: the source compares them with \<open>0\<close> and
  \<^verbatim>\<open>EPERM\<close> only (the one negation, \<^verbatim>\<open>-ret\<close>, feeds a diagnostic).
\<close>

type_synonym addr = nat

datatype diagnostic =
    Unable_to_turn_into_xenomai_thread
  | Unable_to_initialize_mutex
  | Unable_to_create_condition_variable

datatype call =
    Cobalt_thread_mode
  | Pthread_getschedparam
  | Syscall_gettid
  | Wrap_sched_setscheduler int int int
  | Xenomai_init
  | Fprintf_stderr diagnostic int
  | Wrap_pthread_mutex_init addr
  | Wrap_pthread_mutex_destroy addr
  | Wrap_pthread_mutex_trylock addr
  | Wrap_pthread_mutex_lock addr
  | Wrap_pthread_mutex_unlock addr
  | Wrap_pthread_cond_init addr
  | Wrap_pthread_cond_destroy addr
  | Wrap_pthread_cond_wait addr addr
  | Wrap_pthread_cond_signal addr
  | Wrap_pthread_cond_broadcast addr

text \<open>
  Besides native calls the trace records each activation of the file's own
  \<^verbatim>\<open>turn_into_cobalt_thread\<close>, with the argument it was entered with. The marker has no
  influence on control flow; it makes "the promoter was invoked" a property of the trace.
\<close>

datatype event =
    Ret call int
  | Enter_turn_into_cobalt_thread bool

type_synonym trace = "event list"

text \<open>
  The host decides what every native call returns, as a function of everything that has
  happened so far. Whatever the kernel, other threads or earlier calls contribute to an
  answer is part of that function, so a statement proved for every host covers every run
  in which the native calls return. \<open>policy_out\<close> and \<open>priority_out\<close> are the values
  \<^verbatim>\<open>pthread_getschedparam\<close> leaves in \<^verbatim>\<open>policy\<close> and \<^verbatim>\<open>param\<close>.
\<close>

record host =
  answer :: "trace \<Rightarrow> call \<Rightarrow> int"
  policy_out :: "trace \<Rightarrow> int"
  priority_out :: "trace \<Rightarrow> int"

definition native :: "host \<Rightarrow> call \<Rightarrow> trace \<Rightarrow> int \<times> trace" where
  "native h c tr = (let r = answer h tr c in (r, tr @ [Ret c r]))"

text \<open>\<^verbatim>\<open>EPERM\<close> comes from \<^verbatim>\<open>errno.h\<close>; on Linux it is 1.\<close>

definition EPERM :: int where
  "EPERM = 1"

text \<open>The conversions C++ applies between \<^verbatim>\<open>bool\<close> and \<^verbatim>\<open>int\<close>.\<close>

definition int_of_bool :: "bool \<Rightarrow> int" where
  "int_of_bool b = (if b then 1 else 0)"

definition bool_of_int :: "int \<Rightarrow> bool" where
  "bool_of_int i = (i \<noteq> 0)"


section \<open>Environment initialisation and the domain promoter\<close>

text \<open>
  \<^verbatim>\<open>initialize_xenomai\<close> builds a fixed argument vector and calls \<^verbatim>\<open>xenomai_init\<close>;
  \<^verbatim>\<open>xprintf\<close> expands to nothing because \<^verbatim>\<open>PRINT_XENO_LOCK\<close> is not defined.
\<close>

definition initialize_xenomai :: "host \<Rightarrow> trace \<Rightarrow> trace" where
  "initialize_xenomai h tr = snd (native h Xenomai_init tr)"

text \<open>
  \<^verbatim>\<open>
  static int turn_into_cobalt_thread(bool recurred = false) {
      int current_mode = cobalt_thread_mode();
      ...
      int ret = pthread_getschedparam(pthread_self(), &policy, &param);
      pid_t tid = get_tid();
      if (int ret = __wrap_sched_setscheduler(tid, policy, &param)) {
          fprintf(stderr, "Warning: ...", -ret, strerror(-ret));
          initialize_xenomai();
          if (!recurred)
              return turn_into_cobalt_thread(1);
          else
              return -1;
      }
      return 0;
  }
  \<close>
\<close>

function turn_into_cobalt_thread :: "host \<Rightarrow> bool \<Rightarrow> trace \<Rightarrow> int \<times> trace" where
  "turn_into_cobalt_thread h recurred tr =
     (let tr0 = tr @ [Enter_turn_into_cobalt_thread recurred];
          (current_mode, tr1) = native h Cobalt_thread_mode tr0;
          (ret0, tr2) = native h Pthread_getschedparam tr1;
          policy = policy_out h tr2;
          param = priority_out h tr2;
          (tid, tr3) = native h Syscall_gettid tr2;
          (ret, tr4) = native h (Wrap_sched_setscheduler tid policy param) tr3
      in if bool_of_int ret then
           (let tr5 = snd (native h (Fprintf_stderr Unable_to_turn_into_xenomai_thread (- ret)) tr4);
                tr6 = initialize_xenomai h tr5
            in if \<not> recurred then turn_into_cobalt_thread h (bool_of_int 1) tr6
               else (- 1, tr6))
         else (0, tr4))"
  by pat_completeness auto
termination
  by (relation "measure (\<lambda>(h, recurred, tr). if recurred then 0 else 1)")
     (auto simp: bool_of_int_def)

declare turn_into_cobalt_thread.simps [simp del]


section \<open>The retry helper\<close>

text \<open>
  \<^verbatim>\<open>
  template <typename T> static int try_or_retry(std::function<int()> func, T* id,
                                                const char* name, bool enabled) {
      int ret;
      if (!enabled) {
          return false;
      }
      if (EPERM != (ret = func()))
          return ret;
      if (turn_into_cobalt_thread()) {
          return EPERM;
      }
      if (EPERM == (ret = func()))
          xfprintf(...);
      return ret;
  }
  \<close>
  \<open>func\<close> is any computation over the trace. \<^verbatim>\<open>return false\<close> in a function returning
  \<^verbatim>\<open>int\<close> returns \<open>int_of_bool False\<close>. \<^verbatim>\<open>xfprintf\<close> expands to nothing.
\<close>

definition try_or_retry ::
    "host \<Rightarrow> (trace \<Rightarrow> int \<times> trace) \<Rightarrow> addr \<Rightarrow> string \<Rightarrow> bool \<Rightarrow> trace \<Rightarrow> int \<times> trace" where
  "try_or_retry h func ident name enabled tr =
     (if \<not> enabled then (int_of_bool False, tr)
      else
        (let (ret, tr1) = func tr
         in if EPERM \<noteq> ret then (ret, tr1)
            else
              (let (promoted, tr2) = turn_into_cobalt_thread h False tr1
               in if bool_of_int promoted then (EPERM, tr2)
                  else
                    (let (ret, tr3) = func tr2
                     in (ret, tr3)))))"


section \<open>Mutex\<close>

text \<open>
  A \<^verbatim>\<open>XenomaiMutex\<close> owns a native \<^verbatim>\<open>pthread_mutex_t\<close>, held here by its address, and
  the flag \<^verbatim>\<open>enabled\<close>.
\<close>

record XenomaiMutex =
  mutex :: addr
  enabled :: bool

text \<open>
  Modelled from the spec: the class declaration (\<^verbatim>\<open>XenomaiLock.h\<close>) is not among the
  sources. The spec has a failed construction "leave \<open>enabled=false\<close>", and the constructor
  body never assigns \<open>false\<close>, so the member starts as \<open>false\<close>.
\<close>

definition XenomaiMutex_members :: "addr \<Rightarrow> XenomaiMutex" where
  "XenomaiMutex_members a = \<lparr>mutex = a, enabled = False\<rparr>"

text \<open>
  \<^verbatim>\<open>
  XenomaiMutex::XenomaiMutex() {
      if (EPERM == __wrap_pthread_mutex_init(&mutex, NULL)) {
          initialize_xenomai();
          if (int ret = __wrap_pthread_mutex_init(&mutex, NULL)) {
              fprintf(stderr, "Error: unable to initialize mutex : (%d) %s\n", ret, strerror(-ret));
              return;
          }
      }
      enabled = true;
  }
  \<close>
  The first component of the inner pair tells whether the body has returned early.
\<close>

definition XenomaiMutex_ctor :: "host \<Rightarrow> addr \<Rightarrow> trace \<Rightarrow> XenomaiMutex \<times> trace" where
  "XenomaiMutex_ctor h a tr =
     (let this = XenomaiMutex_members a;
          (first, tr1) = native h (Wrap_pthread_mutex_init (mutex this)) tr;
          (returned, tr4) =
            (if EPERM = first then
               (let tr2 = initialize_xenomai h tr1;
                    (ret, tr3) = native h (Wrap_pthread_mutex_init (mutex this)) tr2
                in if bool_of_int ret
                   then (True, snd (native h (Fprintf_stderr Unable_to_initialize_mutex ret) tr3))
                   else (False, tr3))
             else (False, tr1))
      in if returned then (this, tr4)
         else (this\<lparr>enabled := True\<rparr>, tr4))"

text \<open>
  \<^verbatim>\<open>
  XenomaiMutex::~XenomaiMutex() {
      if (enabled)
          __wrap_pthread_mutex_destroy(&mutex);
  }
  \<close>
\<close>

definition XenomaiMutex_dtor :: "host \<Rightarrow> XenomaiMutex \<Rightarrow> trace \<Rightarrow> trace" where
  "XenomaiMutex_dtor h this tr =
     (if enabled this then snd (native h (Wrap_pthread_mutex_destroy (mutex this)) tr)
      else tr)"

text \<open>
  \<^verbatim>\<open>
  bool XenomaiMutex::try_lock(bool recurred) {
      const char name[] = "try_lock";
      return 0 == try_or_retry([this]() { return __wrap_pthread_mutex_trylock(&this->mutex); },
                               &mutex, name, enabled);
  }
  void XenomaiMutex::lock(bool recurred)   { ... __wrap_pthread_mutex_lock(&this->mutex) ... }
  void XenomaiMutex::unlock(bool recurred) { ... __wrap_pthread_mutex_unlock(&mutex) ... }
  \<close>
\<close>

definition try_lock :: "host \<Rightarrow> XenomaiMutex \<Rightarrow> bool \<Rightarrow> trace \<Rightarrow> bool \<times> trace" where
  "try_lock h this recurred tr =
     (let (ret, tr1) =
            try_or_retry h (native h (Wrap_pthread_mutex_trylock (mutex this)))
              (mutex this) ''try_lock'' (enabled this) tr
      in (0 = ret, tr1))"

definition lock :: "host \<Rightarrow> XenomaiMutex \<Rightarrow> bool \<Rightarrow> trace \<Rightarrow> trace" where
  "lock h this recurred tr =
     snd (try_or_retry h (native h (Wrap_pthread_mutex_lock (mutex this)))
            (mutex this) ''lock'' (enabled this) tr)"

definition unlock :: "host \<Rightarrow> XenomaiMutex \<Rightarrow> bool \<Rightarrow> trace \<Rightarrow> trace" where
  "unlock h this recurred tr =
     snd (try_or_retry h (native h (Wrap_pthread_mutex_unlock (mutex this)))
            (mutex this) ''unlock'' (enabled this) tr)"


section \<open>Condition variable\<close>

record XenomaiConditionVariable =
  cond :: addr
  cv_enabled :: bool

text \<open>
  Modelled from the spec: the declaration of \<^verbatim>\<open>XenomaiConditionVariable\<close> is absent as well;
  its \<^verbatim>\<open>enabled\<close> member (here \<open>cv_enabled\<close>, the name \<open>enabled\<close> being taken by the mutex)
  starts as \<open>false\<close>, by the "same enable/disable policy as Mutex".
\<close>

definition XenomaiConditionVariable_members :: "addr \<Rightarrow> XenomaiConditionVariable" where
  "XenomaiConditionVariable_members a = \<lparr>cond = a, cv_enabled = False\<rparr>"

text \<open>
  \<^verbatim>\<open>
  XenomaiConditionVariable::XenomaiConditionVariable() {
      if (int ret = __wrap_pthread_cond_init(&cond, NULL)) {
          if (EPERM == ret) {
              initialize_xenomai();
              if (int ret = __wrap_pthread_cond_init(&cond, NULL)) {
                  fprintf(stderr, "Error: unable to create condition variable : (%d) %s\n", ret, strerror(ret));
                  return;
              }
          }
          return;
      }
      enabled = true;
  }
  \<close>
\<close>

definition XenomaiConditionVariable_ctor ::
    "host \<Rightarrow> addr \<Rightarrow> trace \<Rightarrow> XenomaiConditionVariable \<times> trace" where
  "XenomaiConditionVariable_ctor h a tr =
     (let this = XenomaiConditionVariable_members a;
          (ret, tr1) = native h (Wrap_pthread_cond_init (cond this)) tr;
          (returned, tr5) =
            (if bool_of_int ret then
               (let (returned_inner, tr4) =
                      (if EPERM = ret then
                         (let tr2 = initialize_xenomai h tr1;
                              (ret', tr3) = native h (Wrap_pthread_cond_init (cond this)) tr2
                          in if bool_of_int ret'
                             then (True, snd (native h
                                     (Fprintf_stderr Unable_to_create_condition_variable ret') tr3))
                             else (False, tr3))
                       else (False, tr1))
                in (True, tr4))
             else (False, tr1))
      in if returned then (this, tr5)
         else (this\<lparr>cv_enabled := True\<rparr>, tr5))"

text \<open>
  \<^verbatim>\<open>std::unique_lock<XenomaiMutex>\<close>: the mutex it refers to and whether it owns the lock.
\<close>

record unique_lock =
  pm :: XenomaiMutex
  owns :: bool

text \<open>
  \<^verbatim>\<open>
  void XenomaiConditionVariable::wait(std::unique_lock<XenomaiMutex>& lck, bool recurred) {
      const char name[] = "wait";
      try_or_retry([this, &lck]() {
          return __wrap_pthread_cond_wait(&this->cond, &lck.mutex()->mutex); }, &cond, name, enabled);
  }
  void XenomaiConditionVariable::notify_one(bool recurred) noexcept { ... __wrap_pthread_cond_signal(&this->cond) ... }
  void XenomaiConditionVariable::notify_all(bool recurred) noexcept { ... __wrap_pthread_cond_broadcast(&this->cond) ... }
  \<close>
\<close>

definition wait ::
    "host \<Rightarrow> XenomaiConditionVariable \<Rightarrow> unique_lock \<Rightarrow> bool \<Rightarrow> trace \<Rightarrow> trace" where
  "wait h this lck recurred tr =
     snd (try_or_retry h (native h (Wrap_pthread_cond_wait (cond this) (mutex (pm lck))))
            (cond this) ''wait'' (cv_enabled this) tr)"

definition notify_one :: "host \<Rightarrow> XenomaiConditionVariable \<Rightarrow> bool \<Rightarrow> trace \<Rightarrow> trace" where
  "notify_one h this recurred tr =
     snd (try_or_retry h (native h (Wrap_pthread_cond_signal (cond this)))
            (cond this) ''notify_one'' (cv_enabled this) tr)"

definition notify_all :: "host \<Rightarrow> XenomaiConditionVariable \<Rightarrow> bool \<Rightarrow> trace \<Rightarrow> trace" where
  "notify_all h this recurred tr =
     snd (try_or_retry h (native h (Wrap_pthread_cond_broadcast (cond this)))
            (cond this) ''notify_all'' (cv_enabled this) tr)"

text \<open>
  \<^verbatim>\<open>
  XenomaiConditionVariable::~XenomaiConditionVariable() {
      if (enabled) {
          notify_all();
          __wrap_pthread_cond_destroy(&cond);
      }
  }
  \<close>
  \<^verbatim>\<open>notify_all()\<close> is called with its default argument; the body of \<^verbatim>\<open>notify_all\<close> never
  reads it.
\<close>

definition XenomaiConditionVariable_dtor ::
    "host \<Rightarrow> XenomaiConditionVariable \<Rightarrow> trace \<Rightarrow> trace" where
  "XenomaiConditionVariable_dtor h this tr =
     (if cv_enabled this then
        (let tr1 = notify_all h this False tr
         in snd (native h (Wrap_pthread_cond_destroy (cond this)) tr1))
      else tr)"


section \<open>Reading a trace\<close>

text \<open>
  What the promoter did, in order: each scheduler-set attempt with its result, and each
  call of \<^verbatim>\<open>xenomai_init\<close>.
\<close>

datatype step = Attempt int | Init

fun promoter_steps :: "trace \<Rightarrow> step list" where
  "promoter_steps [] = []"
| "promoter_steps (Ret (Wrap_sched_setscheduler tid policy param) r # es) =
     Attempt r # promoter_steps es"
| "promoter_steps (Ret Xenomai_init r # es) = Init # promoter_steps es"
| "promoter_steps (e # es) = promoter_steps es"

text \<open>The native calls \<^verbatim>\<open>turn_into_cobalt_thread\<close> and \<^verbatim>\<open>initialize_xenomai\<close> make.\<close>

fun promoter_call :: "call \<Rightarrow> bool" where
  "promoter_call Cobalt_thread_mode = True"
| "promoter_call Pthread_getschedparam = True"
| "promoter_call Syscall_gettid = True"
| "promoter_call (Wrap_sched_setscheduler tid policy param) = True"
| "promoter_call Xenomai_init = True"
| "promoter_call (Fprintf_stderr d v) = True"
| "promoter_call c = False"

text \<open>The six native operations the methods hand to \<^verbatim>\<open>try_or_retry\<close>.\<close>

fun wrapped :: "call \<Rightarrow> bool" where
  "wrapped (Wrap_pthread_mutex_trylock a) = True"
| "wrapped (Wrap_pthread_mutex_lock a) = True"
| "wrapped (Wrap_pthread_mutex_unlock a) = True"
| "wrapped (Wrap_pthread_cond_wait a b) = True"
| "wrapped (Wrap_pthread_cond_signal a) = True"
| "wrapped (Wrap_pthread_cond_broadcast a) = True"
| "wrapped c = False"

fun is_call :: "call \<Rightarrow> event \<Rightarrow> bool" where
  "is_call c (Ret c' r) = (c' = c)"
| "is_call c (Enter_turn_into_cobalt_thread recurred) = False"

text \<open>How often the native call \<open>c\<close> was made.\<close>

definition calls_of :: "call \<Rightarrow> trace \<Rightarrow> nat" where
  "calls_of c es = length (filter (is_call c) es)"

text \<open>
  How often \<^verbatim>\<open>turn_into_cobalt_thread()\<close> was invoked from outside: the activations
  entered with \<^verbatim>\<open>recurred = false\<close>. The one self-call passes \<^verbatim>\<open>1\<close>.
\<close>

definition promoter_invocations :: "trace \<Rightarrow> nat" where
  "promoter_invocations es = length (filter (\<lambda>e. e = Enter_turn_into_cobalt_thread False) es)"

text \<open>The events a computation added to the trace it started from.\<close>

definition added :: "trace \<Rightarrow> trace \<Rightarrow> trace" where
  "added tr tr' = drop (length tr) tr'"


section \<open>Example hosts\<close>

definition host_answering :: "(trace \<Rightarrow> call \<Rightarrow> int) \<Rightarrow> host" where
  "host_answering f = \<lparr>answer = f, policy_out = (\<lambda>tr. 0), priority_out = (\<lambda>tr. 0)\<rparr>"

text \<open>A host on which every native call returns the same value.\<close>

definition always :: "int \<Rightarrow> host" where
  "always v = host_answering (\<lambda>tr c. v)"

text \<open>
  A thread of the standard domain in a process that has not initialised Xenomai yet:
  the scheduler-set syscall and the native inits fail with \<^verbatim>\<open>EPERM\<close> until
  \<^verbatim>\<open>xenomai_init\<close> has run, and a lock or condition operation fails with \<^verbatim>\<open>EPERM\<close>
  until a scheduler-set syscall has succeeded.
\<close>

fun needs_init :: "call \<Rightarrow> bool" where
  "needs_init (Wrap_sched_setscheduler tid policy param) = True"
| "needs_init (Wrap_pthread_mutex_init a) = True"
| "needs_init (Wrap_pthread_cond_init a) = True"
| "needs_init c = False"

definition standard_thread :: host where
  "standard_thread = host_answering (\<lambda>tr c.
     if needs_init c then (if 0 < calls_of Xenomai_init tr then 0 else EPERM)
     else if wrapped c then (if Attempt 0 \<in> set (promoter_steps tr) then 0 else EPERM)
     else 0)"


section \<open>Properties of native calls and traces\<close>

lemma native_chain:
  "\<exists>m g t r f i.
      native h Cobalt_thread_mode (tr @ [e]) = (m, tr @ [e, Ret Cobalt_thread_mode m])
    \<and> native h Pthread_getschedparam (tr @ [e, Ret Cobalt_thread_mode m])
        = (g, tr @ [e, Ret Cobalt_thread_mode m, Ret Pthread_getschedparam g])
    \<and> native h Syscall_gettid (tr @ [e, Ret Cobalt_thread_mode m, Ret Pthread_getschedparam g])
        = (t, tr @ [e, Ret Cobalt_thread_mode m, Ret Pthread_getschedparam g, Ret Syscall_gettid t])
    \<and> native h (sc m g t)
          (tr @ [e, Ret Cobalt_thread_mode m, Ret Pthread_getschedparam g, Ret Syscall_gettid t])
        = (r, tr @ [e, Ret Cobalt_thread_mode m, Ret Pthread_getschedparam g, Ret Syscall_gettid t,
                    Ret (sc m g t) r])
    \<and> native h (fp r)
          (tr @ [e, Ret Cobalt_thread_mode m, Ret Pthread_getschedparam g, Ret Syscall_gettid t,
                 Ret (sc m g t) r])
        = (f, tr @ [e, Ret Cobalt_thread_mode m, Ret Pthread_getschedparam g, Ret Syscall_gettid t,
                    Ret (sc m g t) r, Ret (fp r) f])
    \<and> native h Xenomai_init
          (tr @ [e, Ret Cobalt_thread_mode m, Ret Pthread_getschedparam g, Ret Syscall_gettid t,
                 Ret (sc m g t) r, Ret (fp r) f])
        = (i, tr @ [e, Ret Cobalt_thread_mode m, Ret Pthread_getschedparam g, Ret Syscall_gettid t,
                    Ret (sc m g t) r, Ret (fp r) f, Ret Xenomai_init i])"
  by (simp add: native_def Let_def)

lemma promoter_steps_append [simp]:
  "promoter_steps (xs @ ys) = promoter_steps xs @ promoter_steps ys"
  by (induction xs rule: promoter_steps.induct) simp_all

lemma calls_of_append [simp]: "calls_of c (xs @ ys) = calls_of c xs + calls_of c ys"
  by (simp add: calls_of_def)

lemma promoter_invocations_append [simp]:
  "promoter_invocations (xs @ ys) = promoter_invocations xs + promoter_invocations ys"
  by (simp add: promoter_invocations_def)

lemma added_append [simp]: "added tr (tr @ ext) = ext"
  by (simp add: added_def)

lemma wrapped_not_promoter_call: "wrapped c \<Longrightarrow> \<not> promoter_call c"
  by (cases c) simp_all


section \<open>One activation of the promoter, and a whole call\<close>

text \<open>
  An activation makes its four calls and, when the scheduler-set syscall returned
  non-zero, the diagnostic and \<^verbatim>\<open>xenomai_init\<close>; only then, and only when it was not
  itself the retry, it runs the function once more.
\<close>

lemma turn_step:
  "\<exists>pre a post.
      promoter_steps pre = [Attempt a] \<and> promoter_steps post = [Init]
    \<and> promoter_invocations pre = (if recurred then 0 else 1) \<and> promoter_invocations post = 0
    \<and> (\<forall>c. \<not> promoter_call c \<longrightarrow> calls_of c pre = 0 \<and> calls_of c post = 0)
    \<and> calls_of Xenomai_init pre = 0 \<and> calls_of Xenomai_init post = 1
    \<and> turn_into_cobalt_thread h recurred tr =
         (if a = 0 then (0, tr @ pre)
          else if recurred then (- 1, tr @ pre @ post)
          else turn_into_cobalt_thread h True (tr @ pre @ post))"
proof -
  define e where "e = Enter_turn_into_cobalt_thread recurred"
  let ?sc = "\<lambda>m g t. Wrap_sched_setscheduler t
      (policy_out h (tr @ [e, Ret Cobalt_thread_mode m, Ret Pthread_getschedparam g]))
      (priority_out h (tr @ [e, Ret Cobalt_thread_mode m, Ret Pthread_getschedparam g]))"
  let ?fp = "\<lambda>r. Fprintf_stderr Unable_to_turn_into_xenomai_thread (- r)"
  from native_chain [of h tr e ?sc ?fp]
  obtain m g t r f i where
    c: "native h Cobalt_thread_mode (tr @ [e]) = (m, tr @ [e, Ret Cobalt_thread_mode m])"
      "native h Pthread_getschedparam (tr @ [e, Ret Cobalt_thread_mode m])
        = (g, tr @ [e, Ret Cobalt_thread_mode m, Ret Pthread_getschedparam g])"
      "native h Syscall_gettid (tr @ [e, Ret Cobalt_thread_mode m, Ret Pthread_getschedparam g])
        = (t, tr @ [e, Ret Cobalt_thread_mode m, Ret Pthread_getschedparam g, Ret Syscall_gettid t])"
      "native h (?sc m g t)
          (tr @ [e, Ret Cobalt_thread_mode m, Ret Pthread_getschedparam g, Ret Syscall_gettid t])
        = (r, tr @ [e, Ret Cobalt_thread_mode m, Ret Pthread_getschedparam g, Ret Syscall_gettid t,
                    Ret (?sc m g t) r])"
      "native h (?fp r)
          (tr @ [e, Ret Cobalt_thread_mode m, Ret Pthread_getschedparam g, Ret Syscall_gettid t,
                 Ret (?sc m g t) r])
        = (f, tr @ [e, Ret Cobalt_thread_mode m, Ret Pthread_getschedparam g, Ret Syscall_gettid t,
                    Ret (?sc m g t) r, Ret (?fp r) f])"
      "native h Xenomai_init
          (tr @ [e, Ret Cobalt_thread_mode m, Ret Pthread_getschedparam g, Ret Syscall_gettid t,
                 Ret (?sc m g t) r, Ret (?fp r) f])
        = (i, tr @ [e, Ret Cobalt_thread_mode m, Ret Pthread_getschedparam g, Ret Syscall_gettid t,
                    Ret (?sc m g t) r, Ret (?fp r) f, Ret Xenomai_init i])"
    by blast
  let ?pre = "[e, Ret Cobalt_thread_mode m, Ret Pthread_getschedparam g, Ret Syscall_gettid t,
               Ret (?sc m g t) r]"
  let ?post = "[Ret (?fp r) f, Ret Xenomai_init i]"
  have "turn_into_cobalt_thread h recurred tr =
          (if r = 0 then (0, tr @ ?pre)
           else if recurred then (- 1, tr @ ?pre @ ?post)
           else turn_into_cobalt_thread h True (tr @ ?pre @ ?post))"
    apply (subst turn_into_cobalt_thread.simps)
    apply (fold e_def)
    apply (simp add: c Let_def bool_of_int_def initialize_xenomai_def)
    done
  then show ?thesis
    by (rule_tac x = "?pre" in exI, rule_tac x = r in exI, rule_tac x = "?post" in exI)
       (auto simp: promoter_invocations_def calls_of_def e_def)
qed

lemma promoter_shape:
  "\<exists>ext. snd (turn_into_cobalt_thread h False tr) = tr @ ext
     \<and> promoter_invocations ext = 1
     \<and> (\<forall>c. \<not> promoter_call c \<longrightarrow> calls_of c ext = 0)
     \<and> (fst (turn_into_cobalt_thread h False tr) = 0
            \<and> promoter_steps ext = [Attempt 0] \<and> calls_of Xenomai_init ext = 0
        \<or> fst (turn_into_cobalt_thread h False tr) = 0
            \<and> (\<exists>a. a \<noteq> 0 \<and> promoter_steps ext = [Attempt a, Init, Attempt 0])
            \<and> calls_of Xenomai_init ext = 1
        \<or> fst (turn_into_cobalt_thread h False tr) = - 1
            \<and> (\<exists>a b. a \<noteq> 0 \<and> b \<noteq> 0 \<and> promoter_steps ext = [Attempt a, Init, Attempt b, Init])
            \<and> calls_of Xenomai_init ext = 2)"
proof -
  from turn_step [of False h tr] obtain pre a post where
      p: "promoter_steps pre = [Attempt a]" "promoter_steps post = [Init]"
        "promoter_invocations pre = 1" "promoter_invocations post = 0"
        "\<forall>c. \<not> promoter_call c \<longrightarrow> calls_of c pre = 0 \<and> calls_of c post = 0"
        "calls_of Xenomai_init pre = 0" "calls_of Xenomai_init post = 1" and
      eq: "turn_into_cobalt_thread h False tr =
            (if a = 0 then (0, tr @ pre)
             else turn_into_cobalt_thread h True (tr @ pre @ post))"
    by auto
  show ?thesis
  proof (cases "a = 0")
    case True
    with eq p show ?thesis
      by (intro exI [where x = pre]) simp
  next
    case a: False
    from turn_step [of True h "tr @ pre @ post"] obtain pre' b post' where
        q: "promoter_steps pre' = [Attempt b]" "promoter_steps post' = [Init]"
          "promoter_invocations pre' = 0" "promoter_invocations post' = 0"
          "\<forall>c. \<not> promoter_call c \<longrightarrow> calls_of c pre' = 0 \<and> calls_of c post' = 0"
          "calls_of Xenomai_init pre' = 0" "calls_of Xenomai_init post' = 1" and
        eq': "turn_into_cobalt_thread h True (tr @ pre @ post) =
              (if b = 0 then (0, (tr @ pre @ post) @ pre')
               else (- 1, (tr @ pre @ post) @ pre' @ post'))"
      by auto
    show ?thesis
    proof (cases "b = 0")
      case True
      with a eq eq' p q show ?thesis
        by (intro exI [where x = "pre @ post @ pre'"]) simp
    next
      case False
      with a eq eq' p q show ?thesis
        by (intro exI [where x = "pre @ post @ pre' @ post'"]) simp
    qed
  qed
qed


section \<open>The retry helper on a native operation\<close>

lemma native_eq: "native h c tr = (answer h tr c, tr @ [Ret c (answer h tr c)])"
  by (simp add: native_def Let_def)

lemma calls_of_Cons [simp]:
  "calls_of c (e # es) = (if is_call c e then 1 else 0) + calls_of c es"
  by (simp add: calls_of_def)

lemma added_Nil [simp]: "added [] tr = tr"
  by (simp add: added_def)

lemma promoter_invocations_Ret [simp]: "promoter_invocations (Ret c r # es) = promoter_invocations es"
  by (simp add: promoter_invocations_def)

lemma promoter_invocations_Nil [simp]: "promoter_invocations [] = 0"
  by (simp add: promoter_invocations_def)

lemma calls_of_Nil [simp]: "calls_of c [] = 0"
  by (simp add: calls_of_def)

text \<open>
  With the flag set the helper runs the operation once, and then adds nothing, or one
  promoter call, or one promoter call and the operation once more.
\<close>

lemma try_or_retry_shape:
  assumes "\<not> promoter_call c"
  shows "\<exists>ext. snd (try_or_retry h (native h c) ident name True tr)
                  = tr @ Ret c (answer h tr c) # ext
           \<and> calls_of c ext \<le> 1 \<and> promoter_invocations ext \<le> 1
           \<and> (\<forall>c'. \<not> promoter_call c' \<and> c' \<noteq> c \<longrightarrow> calls_of c' ext = 0)"
proof -
  let ?r1 = "answer h tr c"
  let ?tr1 = "tr @ [Ret c ?r1]"
  show ?thesis
  proof (cases "?r1 = EPERM")
    case False
    then have "try_or_retry h (native h c) ident name True tr = (?r1, ?tr1)"
      by (simp add: try_or_retry_def native_eq)
    then show ?thesis
      by (intro exI [where x = "[]"]) simp
  next
    case first: True
    from promoter_shape [of h ?tr1] obtain ext where
        e: "snd (turn_into_cobalt_thread h False ?tr1) = ?tr1 @ ext"
          "promoter_invocations ext = 1"
          "\<forall>c. \<not> promoter_call c \<longrightarrow> calls_of c ext = 0"
      by blast
    show ?thesis
    proof (cases "fst (turn_into_cobalt_thread h False ?tr1) = 0")
      case False
      with first e have "snd (try_or_retry h (native h c) ident name True tr) = ?tr1 @ ext"
        by (simp add: try_or_retry_def native_eq bool_of_int_def case_prod_beta)
      with e assms show ?thesis
        by (intro exI [where x = ext]) simp
    next
      case True
      let ?r2 = "answer h (?tr1 @ ext) c"
      from True first e
      have "snd (try_or_retry h (native h c) ident name True tr) = ?tr1 @ ext @ [Ret c ?r2]"
        by (simp add: try_or_retry_def native_eq bool_of_int_def case_prod_beta)
      with e assms show ?thesis
        by (intro exI [where x = "ext @ [Ret c ?r2]"]) simp
    qed
  qed
qed

lemma try_or_retry_first_result_any_func:
  "fst (func tr) \<noteq> EPERM \<Longrightarrow> try_or_retry h func ident name True tr = func tr"
  by (simp add: try_or_retry_def case_prod_beta)

lemma try_or_retry_disabled: "try_or_retry h func ident name False tr = (0, tr)"
  by (simp add: try_or_retry_def int_of_bool_def)


section \<open>What the constructors enable\<close>

text \<open>
  The mutex is enabled unless the first init returned \<^verbatim>\<open>EPERM\<close> and the retry returned
  non-zero; the condition variable is enabled exactly when its first init returned 0.
\<close>

lemma XenomaiMutex_ctor_enabled:
  "enabled (fst (XenomaiMutex_ctor h a tr)) =
     (answer h tr (Wrap_pthread_mutex_init a) \<noteq> EPERM
      \<or> fst (native h (Wrap_pthread_mutex_init a)
            (initialize_xenomai h (tr @ [Ret (Wrap_pthread_mutex_init a) EPERM]))) = 0)"
  by (simp add: XenomaiMutex_ctor_def XenomaiMutex_members_def native_eq Let_def
        bool_of_int_def case_prod_beta)

lemma XenomaiConditionVariable_ctor_enabled:
  "cv_enabled (fst (XenomaiConditionVariable_ctor h a tr)) =
     (answer h tr (Wrap_pthread_cond_init a) = 0)"
  by (simp add: XenomaiConditionVariable_ctor_def XenomaiConditionVariable_members_def native_eq
        Let_def bool_of_int_def case_prod_beta)


section \<open>The domain promoter\<close>

text \<open>
  C4. A call \<^verbatim>\<open>turn_into_cobalt_thread()\<close> returns 0 when the scheduler-set syscall
  succeeds at once, or when it fails, \<^verbatim>\<open>xenomai_init\<close> runs and the one retry succeeds;
  when the retry fails too it returns \<open>- 1\<close> and does not try again. So the promoter's
  steps are one attempt, or two with an initialisation in between, never more.
\<close>

theorem turn_into_cobalt_thread_result:
  "(let (r, tr') = turn_into_cobalt_thread h False tr;
        st = promoter_steps (added tr tr')
    in take (length tr) tr' = tr
       \<and> (r = 0 \<and> st = [Attempt 0]
          \<or> r = 0 \<and> (\<exists>a. a \<noteq> 0 \<and> st = [Attempt a, Init, Attempt 0])
          \<or> r = - 1 \<and> (\<exists>a b. a \<noteq> 0 \<and> b \<noteq> 0 \<and> st = [Attempt a, Init, Attempt b, Init])))"
proof -
  from promoter_shape [of h tr] obtain ext where
      "snd (turn_into_cobalt_thread h False tr) = tr @ ext"
      "fst (turn_into_cobalt_thread h False tr) = 0 \<and> promoter_steps ext = [Attempt 0]
        \<or> fst (turn_into_cobalt_thread h False tr) = 0
            \<and> (\<exists>a. a \<noteq> 0 \<and> promoter_steps ext = [Attempt a, Init, Attempt 0])
        \<or> fst (turn_into_cobalt_thread h False tr) = - 1
            \<and> (\<exists>a b. a \<noteq> 0 \<and> b \<noteq> 0 \<and> promoter_steps ext = [Attempt a, Init, Attempt b, Init])"
    by blast
  then show ?thesis
    by (cases "turn_into_cobalt_thread h False tr") simp
qed

theorem turn_into_cobalt_thread_result_witness:
  "(let (r, tr') = turn_into_cobalt_thread standard_thread False [];
        st = promoter_steps (added [] tr')
    in take (length ([]::trace)) tr' = []
       \<and> (r = 0 \<and> st = [Attempt 0]
          \<or> r = 0 \<and> (\<exists>a. a \<noteq> 0 \<and> st = [Attempt a, Init, Attempt 0])
          \<or> r = - 1 \<and> (\<exists>a b. a \<noteq> 0 \<and> b \<noteq> 0 \<and> st = [Attempt a, Init, Attempt b, Init])))
   \<and> fst (turn_into_cobalt_thread standard_thread False []) = 0
   \<and> promoter_steps (snd (turn_into_cobalt_thread standard_thread False []))
       = [Attempt 1, Init, Attempt 0]"
proof (intro conjI)
  show "(let (r, tr') = turn_into_cobalt_thread standard_thread False [];
        st = promoter_steps (added [] tr')
    in take (length ([]::trace)) tr' = []
       \<and> (r = 0 \<and> st = [Attempt 0]
          \<or> r = 0 \<and> (\<exists>a. a \<noteq> 0 \<and> st = [Attempt a, Init, Attempt 0])
          \<or> r = - 1 \<and> (\<exists>a b. a \<noteq> 0 \<and> b \<noteq> 0 \<and> st = [Attempt a, Init, Attempt b, Init])))"
    by (rule turn_into_cobalt_thread_result)
  show "fst (turn_into_cobalt_thread standard_thread False []) = 0"
    by code_simp
  show "promoter_steps (snd (turn_into_cobalt_thread standard_thread False []))
       = [Attempt 1, Init, Attempt 0]"
    by code_simp
qed

text \<open>
  C9. When no scheduler-set attempt of a promoter call succeeds, the call runs
  \<^verbatim>\<open>xenomai_init\<close> twice: once after the first failed attempt and once more after the
  second.
\<close>

theorem turn_into_cobalt_thread_initializes_twice:
  assumes "Attempt 0 \<notin> set (promoter_steps (added tr (snd (turn_into_cobalt_thread h False tr))))"
  shows "calls_of Xenomai_init (added tr (snd (turn_into_cobalt_thread h False tr))) = 2
       \<and> (\<exists>a b. a \<noteq> 0 \<and> b \<noteq> 0
            \<and> promoter_steps (added tr (snd (turn_into_cobalt_thread h False tr)))
                = [Attempt a, Init, Attempt b, Init])"
proof -
  from promoter_shape [of h tr] obtain ext where
      ext: "snd (turn_into_cobalt_thread h False tr) = tr @ ext" and
      alt: "promoter_steps ext = [Attempt 0]
        \<or> (\<exists>a. a \<noteq> 0 \<and> promoter_steps ext = [Attempt a, Init, Attempt 0])
        \<or> (\<exists>a b. a \<noteq> 0 \<and> b \<noteq> 0 \<and> promoter_steps ext = [Attempt a, Init, Attempt b, Init])
            \<and> calls_of Xenomai_init ext = 2"
    by blast
  from assms ext have "Attempt 0 \<notin> set (promoter_steps ext)"
    by simp
  with alt have "(\<exists>a b. a \<noteq> 0 \<and> b \<noteq> 0 \<and> promoter_steps ext = [Attempt a, Init, Attempt b, Init])
      \<and> calls_of Xenomai_init ext = 2"
    by auto
  with ext show ?thesis
    by simp
qed

theorem turn_into_cobalt_thread_initializes_twice_witness:
  "Attempt 0 \<notin> set (promoter_steps (added [] (snd (turn_into_cobalt_thread (always EPERM) False []))))
   \<and> calls_of Xenomai_init (added [] (snd (turn_into_cobalt_thread (always EPERM) False []))) = 2
   \<and> (\<exists>a b. a \<noteq> 0 \<and> b \<noteq> 0
        \<and> promoter_steps (added [] (snd (turn_into_cobalt_thread (always EPERM) False [])))
            = [Attempt a, Init, Attempt b, Init])"
proof -
  have h: "Attempt 0 \<notin> set (promoter_steps (added [] (snd (turn_into_cobalt_thread (always EPERM) False []))))"
    by code_simp
  from turn_into_cobalt_thread_initializes_twice [OF h] h show ?thesis
    by blast
qed


section \<open>The retry helper\<close>

text \<open>
  C5. Called with the flag set on one of the six native operations, the helper makes that
  native call once or twice and invokes \<^verbatim>\<open>turn_into_cobalt_thread()\<close> at most once.
\<close>

theorem try_or_retry_bounded:
  assumes "wrapped c"
  shows "(let (r, tr') = try_or_retry h (native h c) ident name True tr;
              ext = added tr tr'
          in take (length tr) tr' = tr
             \<and> 1 \<le> calls_of c ext \<and> calls_of c ext \<le> 2
             \<and> promoter_invocations ext \<le> 1)"
proof -
  from assms have "\<not> promoter_call c"
    by (rule wrapped_not_promoter_call)
  from try_or_retry_shape [OF this, of h ident name tr] obtain ext where
      "snd (try_or_retry h (native h c) ident name True tr) = tr @ Ret c (answer h tr c) # ext"
      "calls_of c ext \<le> 1" "promoter_invocations ext \<le> 1"
    by blast
  then show ?thesis
    by (cases "try_or_retry h (native h c) ident name True tr") (simp add: calls_of_def)
qed

theorem try_or_retry_bounded_witness:
  "wrapped (Wrap_pthread_mutex_lock 0)
   \<and> (let (r, tr') = try_or_retry standard_thread
                       (native standard_thread (Wrap_pthread_mutex_lock 0)) 0 ''lock'' True [];
           ext = added [] tr'
       in take (length ([]::trace)) tr' = []
          \<and> 1 \<le> calls_of (Wrap_pthread_mutex_lock 0) ext
          \<and> calls_of (Wrap_pthread_mutex_lock 0) ext \<le> 2
          \<and> promoter_invocations ext \<le> 1)
   \<and> calls_of (Wrap_pthread_mutex_lock 0)
        (snd (try_or_retry standard_thread
               (native standard_thread (Wrap_pthread_mutex_lock 0)) 0 ''lock'' True [])) = 2
   \<and> promoter_invocations
        (snd (try_or_retry standard_thread
               (native standard_thread (Wrap_pthread_mutex_lock 0)) 0 ''lock'' True [])) = 1"
proof (intro conjI)
  show w: "wrapped (Wrap_pthread_mutex_lock 0)"
    by simp
  show "(let (r, tr') = try_or_retry standard_thread
                       (native standard_thread (Wrap_pthread_mutex_lock 0)) 0 ''lock'' True [];
           ext = added [] tr'
       in take (length ([]::trace)) tr' = []
          \<and> 1 \<le> calls_of (Wrap_pthread_mutex_lock 0) ext
          \<and> calls_of (Wrap_pthread_mutex_lock 0) ext \<le> 2
          \<and> promoter_invocations ext \<le> 1)"
    by (rule try_or_retry_bounded [OF w])
  show "calls_of (Wrap_pthread_mutex_lock 0)
        (snd (try_or_retry standard_thread
               (native standard_thread (Wrap_pthread_mutex_lock 0)) 0 ''lock'' True [])) = 2"
    by code_simp
  show "promoter_invocations
        (snd (try_or_retry standard_thread
               (native standard_thread (Wrap_pthread_mutex_lock 0)) 0 ''lock'' True [])) = 1"
    by code_simp
qed

text \<open>
  C6. With the flag set, a first result other than \<^verbatim>\<open>EPERM\<close> is returned as it is: the
  helper has made the one native call and nothing else, so the promoter was not invoked.
  In particular \<^verbatim>\<open>try_lock()\<close> on an enabled mutex whose native trylock returns an error
  other than \<^verbatim>\<open>EPERM\<close> (such as \<^verbatim>\<open>EBUSY\<close>) returns \<^verbatim>\<open>false\<close> after that single call.
\<close>

theorem try_or_retry_first_result:
  assumes "answer h tr c \<noteq> EPERM"
  shows "try_or_retry h (native h c) ident name True tr
           = (answer h tr c, tr @ [Ret c (answer h tr c)])
       \<and> promoter_invocations (added tr (snd (try_or_retry h (native h c) ident name True tr))) = 0
       \<and> (enabled m \<and> c = Wrap_pthread_mutex_trylock (mutex m) \<and> answer h tr c \<noteq> 0
            \<longrightarrow> try_lock h m recurred tr = (False, tr @ [Ret c (answer h tr c)]))"
proof -
  from assms
  have eq: "try_or_retry h (native h c) i n True tr
              = (answer h tr c, tr @ [Ret c (answer h tr c)])" for i n
    by (simp add: try_or_retry_def native_eq)
  then show ?thesis
    by (auto simp: try_lock_def)
qed

theorem try_or_retry_first_result_witness:
  "answer (always 16) [] (Wrap_pthread_mutex_trylock 0) \<noteq> EPERM
   \<and> try_or_retry (always 16) (native (always 16) (Wrap_pthread_mutex_trylock 0)) 0 ''try_lock'' True []
       = (16, [Ret (Wrap_pthread_mutex_trylock 0) 16])
   \<and> promoter_invocations (added [] (snd (try_or_retry (always 16)
        (native (always 16) (Wrap_pthread_mutex_trylock 0)) 0 ''try_lock'' True []))) = 0
   \<and> try_lock (always 16) \<lparr>mutex = 0, enabled = True\<rparr> False []
       = (False, [Ret (Wrap_pthread_mutex_trylock 0) 16])"
proof -
  have h: "answer (always 16) [] (Wrap_pthread_mutex_trylock 0) \<noteq> EPERM"
    by (simp add: always_def host_answering_def EPERM_def)
  have v: "answer (always 16) [] (Wrap_pthread_mutex_trylock 0) = 16"
    by (simp add: always_def host_answering_def)
  note t = try_or_retry_first_result
      [OF h, of 0 "''try_lock''" "\<lparr>mutex = 0, enabled = True\<rparr>" False, unfolded v]
  from t have t1: "try_or_retry (always 16) (native (always 16) (Wrap_pthread_mutex_trylock 0))
        0 ''try_lock'' True [] = (16, [Ret (Wrap_pthread_mutex_trylock 0) 16])"
    by simp
  from t have t2: "promoter_invocations (added [] (snd (try_or_retry (always 16)
        (native (always 16) (Wrap_pthread_mutex_trylock 0)) 0 ''try_lock'' True []))) = 0"
    by blast
  from t have t3: "try_lock (always 16) \<lparr>mutex = 0, enabled = True\<rparr> False []
       = (False, [Ret (Wrap_pthread_mutex_trylock 0) 16])"
    by simp
  from h t1 t2 t3 show ?thesis
    by blast
qed

text \<open>
  C7. With the flag set, when the first native call returns \<^verbatim>\<open>EPERM\<close> and the promoter
  then returns non-zero, the helper returns \<^verbatim>\<open>EPERM\<close> in the state the promoter left:
  the native operation has been called once, not twice.
\<close>

theorem try_or_retry_promotion_failed:
  assumes "wrapped c"
    and "answer h tr c = EPERM"
    and "fst (turn_into_cobalt_thread h False (tr @ [Ret c EPERM])) \<noteq> 0"
  shows "try_or_retry h (native h c) ident name True tr
           = (EPERM, snd (turn_into_cobalt_thread h False (tr @ [Ret c EPERM])))
       \<and> calls_of c (added tr (snd (try_or_retry h (native h c) ident name True tr))) = 1"
proof -
  from assms(2,3)
  have eq: "try_or_retry h (native h c) ident name True tr
              = (EPERM, snd (turn_into_cobalt_thread h False (tr @ [Ret c EPERM])))"
    by (simp add: try_or_retry_def native_eq bool_of_int_def case_prod_beta)
  from assms(1) have np: "\<not> promoter_call c"
    by (rule wrapped_not_promoter_call)
  from promoter_shape [of h "tr @ [Ret c EPERM]"] obtain ext where
      "snd (turn_into_cobalt_thread h False (tr @ [Ret c EPERM])) = (tr @ [Ret c EPERM]) @ ext"
      "\<forall>c. \<not> promoter_call c \<longrightarrow> calls_of c ext = 0"
    by blast
  with np eq show ?thesis
    by simp
qed

theorem try_or_retry_promotion_failed_witness:
  "wrapped (Wrap_pthread_mutex_lock 0)
   \<and> answer (always EPERM) [] (Wrap_pthread_mutex_lock 0) = EPERM
   \<and> fst (turn_into_cobalt_thread (always EPERM) False [Ret (Wrap_pthread_mutex_lock 0) EPERM]) \<noteq> 0
   \<and> try_or_retry (always EPERM) (native (always EPERM) (Wrap_pthread_mutex_lock 0)) 0 ''lock'' True []
       = (EPERM, snd (turn_into_cobalt_thread (always EPERM) False [Ret (Wrap_pthread_mutex_lock 0) EPERM]))
   \<and> calls_of (Wrap_pthread_mutex_lock 0)
        (added [] (snd (try_or_retry (always EPERM)
           (native (always EPERM) (Wrap_pthread_mutex_lock 0)) 0 ''lock'' True []))) = 1"
proof -
  have w: "wrapped (Wrap_pthread_mutex_lock 0)"
    by simp
  have a: "answer (always EPERM) [] (Wrap_pthread_mutex_lock 0) = EPERM"
    by (simp add: always_def host_answering_def)
  have p: "fst (turn_into_cobalt_thread (always EPERM) False
                 ([] @ [Ret (Wrap_pthread_mutex_lock 0) EPERM])) \<noteq> 0"
    by code_simp
  note t = try_or_retry_promotion_failed [OF w a p, of 0 "''lock''", unfolded append_Nil]
  from w a p [unfolded append_Nil] t show ?thesis
    by blast
qed


section \<open>A disabled object\<close>

text \<open>
  C1. Called with the flag clear the helper returns at once and never runs the wrapped
  operation, but the value it returns is \<^verbatim>\<open>false\<close> converted to \<^verbatim>\<open>int\<close>, that is 0, the
  value the native calls use for success. \<^verbatim>\<open>try_lock()\<close> compares the result with 0, so on
  a disabled mutex it returns \<^verbatim>\<open>true\<close>.
\<close>

theorem try_lock_disabled_returns_true:
  "try_or_retry h func ident name False tr = (0, tr)
   \<and> try_lock h \<lparr>mutex = a, enabled = False\<rparr> recurred tr = (True, tr)"
  by (simp add: try_lock_def try_or_retry_disabled)

text \<open>
  C10. \<^verbatim>\<open>wait\<close> on a condition variable whose flag is clear makes no native call at all:
  neither the condition wait nor anything on the handle of the mutex it was given.
\<close>

theorem wait_disabled_does_nothing:
  "wait h \<lparr>cond = a, cv_enabled = False\<rparr> lck recurred tr = tr"
  by (simp add: wait_def try_or_retry_disabled)

theorem wait_disabled_does_nothing_witness:
  "wait standard_thread \<lparr>cond = 0, cv_enabled = False\<rparr>
     \<lparr>pm = \<lparr>mutex = 1, enabled = True\<rparr>, owns = True\<rparr> False
     [Ret (Wrap_pthread_mutex_lock 1) 0]
   = [Ret (Wrap_pthread_mutex_lock 1) 0]"
  by (rule wait_disabled_does_nothing)


section \<open>Construction\<close>

text \<open>
  C2. The constructor of the condition variable does retry the init after \<^verbatim>\<open>EPERM\<close>, but
  when the retry succeeds it falls out of the inner \<^verbatim>\<open>if\<close> onto the \<^verbatim>\<open>return\<close> of the
  outer one and never reaches \<^verbatim>\<open>enabled = true\<close>. On the standard thread the first init
  returns \<^verbatim>\<open>EPERM\<close>, the retry returns 0, and the object is left disabled.
\<close>

theorem cond_ctor_retry_success_leaves_disabled:
  "XenomaiConditionVariable_ctor standard_thread 0 [] =
     (\<lparr>cond = 0, cv_enabled = False\<rparr>,
      [Ret (Wrap_pthread_cond_init 0) EPERM, Ret Xenomai_init 0, Ret (Wrap_pthread_cond_init 0) 0])"
  by (simp add: XenomaiConditionVariable_ctor_def XenomaiConditionVariable_members_def
        native_eq initialize_xenomai_def standard_thread_def host_answering_def
        bool_of_int_def EPERM_def Let_def)

text \<open>
  C3. The mutex constructor only tests the first init for \<^verbatim>\<open>EPERM\<close>. A first init that
  fails with another error (here 12, \<^verbatim>\<open>ENOMEM\<close>) is not retried and the mutex is enabled
  all the same.
\<close>

theorem mutex_ctor_other_error_enables:
  "XenomaiMutex_ctor (always 12) 0 [] =
     (\<lparr>mutex = 0, enabled = True\<rparr>, [Ret (Wrap_pthread_mutex_init 0) 12])"
  by (simp add: XenomaiMutex_ctor_def XenomaiMutex_members_def native_eq always_def
        host_answering_def EPERM_def Let_def)


section \<open>Destruction of a condition variable\<close>

text \<open>
  C8. The destructor of an enabled condition variable runs \<^verbatim>\<open>notify_all()\<close>, whose first
  native call is the broadcast on the object's handle, and only then destroys the handle:
  the destroy is the last call and \<^verbatim>\<open>notify_all()\<close> made none. On a disabled object the
  destructor makes no call.
\<close>

theorem cond_dtor_broadcasts_then_destroys:
  "(cv_enabled this \<longrightarrow>
      (let tr1 = notify_all h this False tr;
           broadcast = Wrap_pthread_cond_broadcast (cond this);
           destroy = Wrap_pthread_cond_destroy (cond this)
       in XenomaiConditionVariable_dtor h this tr = tr1 @ [Ret destroy (answer h tr1 destroy)]
          \<and> take (Suc (length tr)) tr1 = tr @ [Ret broadcast (answer h tr broadcast)]
          \<and> calls_of destroy (added tr tr1) = 0))
   \<and> (\<not> cv_enabled this \<longrightarrow> XenomaiConditionVariable_dtor h this tr = tr)"
proof (intro conjI impI)
  assume en: "cv_enabled this"
  let ?bc = "Wrap_pthread_cond_broadcast (cond this)"
  let ?de = "Wrap_pthread_cond_destroy (cond this)"
  have "\<not> promoter_call ?bc"
    by simp
  from try_or_retry_shape [OF this, of h "cond this" "''notify_all''" tr] obtain ext where
      s: "snd (try_or_retry h (native h ?bc) (cond this) ''notify_all'' True tr)
            = tr @ Ret ?bc (answer h tr ?bc) # ext" and
      o: "\<forall>c'. \<not> promoter_call c' \<and> c' \<noteq> ?bc \<longrightarrow> calls_of c' ext = 0"
    by blast
  from o have "calls_of ?de ext = 0"
    by simp
  with s en
  show "let tr1 = notify_all h this False tr;
           broadcast = Wrap_pthread_cond_broadcast (cond this);
           destroy = Wrap_pthread_cond_destroy (cond this)
       in XenomaiConditionVariable_dtor h this tr = tr1 @ [Ret destroy (answer h tr1 destroy)]
          \<and> take (Suc (length tr)) tr1 = tr @ [Ret broadcast (answer h tr broadcast)]
          \<and> calls_of destroy (added tr tr1) = 0"
    by (simp add: XenomaiConditionVariable_dtor_def notify_all_def native_eq Let_def)
next
  assume "\<not> cv_enabled this"
  then show "XenomaiConditionVariable_dtor h this tr = tr"
    by (simp add: XenomaiConditionVariable_dtor_def)
qed

theorem cond_dtor_broadcasts_then_destroys_witness:
  "cv_enabled \<lparr>cond = 0, cv_enabled = True\<rparr>
   \<and> (let tr1 = notify_all standard_thread \<lparr>cond = 0, cv_enabled = True\<rparr> False [];
           broadcast = Wrap_pthread_cond_broadcast (cond \<lparr>cond = 0, cv_enabled = True\<rparr>);
           destroy = Wrap_pthread_cond_destroy (cond \<lparr>cond = 0, cv_enabled = True\<rparr>)
       in XenomaiConditionVariable_dtor standard_thread \<lparr>cond = 0, cv_enabled = True\<rparr> []
            = tr1 @ [Ret destroy (answer standard_thread tr1 destroy)]
          \<and> take (Suc (length ([]::trace))) tr1
              = [] @ [Ret broadcast (answer standard_thread [] broadcast)]
          \<and> calls_of destroy (added [] tr1) = 0)
   \<and> \<not> cv_enabled \<lparr>cond = 0, cv_enabled = False\<rparr>
   \<and> XenomaiConditionVariable_dtor standard_thread \<lparr>cond = 0, cv_enabled = False\<rparr> [] = []
   \<and> XenomaiConditionVariable_dtor standard_thread \<lparr>cond = 0, cv_enabled = True\<rparr> [] =
       [Ret (Wrap_pthread_cond_broadcast 0) 1,
        Enter_turn_into_cobalt_thread False, Ret Cobalt_thread_mode 0,
        Ret Pthread_getschedparam 0, Ret Syscall_gettid 0,
        Ret (Wrap_sched_setscheduler 0 0 0) 1,
        Ret (Fprintf_stderr Unable_to_turn_into_xenomai_thread (- 1)) 0,
        Ret Xenomai_init 0, Enter_turn_into_cobalt_thread True,
        Ret Cobalt_thread_mode 0, Ret Pthread_getschedparam 0,
        Ret Syscall_gettid 0, Ret (Wrap_sched_setscheduler 0 0 0) 0,
        Ret (Wrap_pthread_cond_broadcast 0) 0,
        Ret (Wrap_pthread_cond_destroy 0) 0]"
proof -
  note t = cond_dtor_broadcasts_then_destroys
      [of "\<lparr>cond = 0, cv_enabled = True\<rparr>" standard_thread "[]"]
  note u = cond_dtor_broadcasts_then_destroys
      [of "\<lparr>cond = 0, cv_enabled = False\<rparr>" standard_thread "[]"]
  have e: "cv_enabled \<lparr>cond = 0, cv_enabled = True\<rparr>"
    by simp
  have d: "\<not> cv_enabled \<lparr>cond = 0, cv_enabled = False\<rparr>"
    by simp
  have v: "XenomaiConditionVariable_dtor standard_thread \<lparr>cond = 0, cv_enabled = True\<rparr> [] =
       [Ret (Wrap_pthread_cond_broadcast 0) 1,
        Enter_turn_into_cobalt_thread False, Ret Cobalt_thread_mode 0,
        Ret Pthread_getschedparam 0, Ret Syscall_gettid 0,
        Ret (Wrap_sched_setscheduler 0 0 0) 1,
        Ret (Fprintf_stderr Unable_to_turn_into_xenomai_thread (- 1)) 0,
        Ret Xenomai_init 0, Enter_turn_into_cobalt_thread True,
        Ret Cobalt_thread_mode 0, Ret Pthread_getschedparam 0,
        Ret Syscall_gettid 0, Ret (Wrap_sched_setscheduler 0 0 0) 0,
        Ret (Wrap_pthread_cond_broadcast 0) 0,
        Ret (Wrap_pthread_cond_destroy 0) 0]"
    by code_simp
  from t e u d v show ?thesis
    by blast
qed

end
